theory Spec2Isabelle
  imports Complex_Main "HOL-Library.Sublist"
begin

section \<open>Python values and exceptions\<close>

text \<open>
  The helpers of \<^verbatim>\<open>my_utilities/convenience/_convenience.py\<close> and the wrapper of
  \<^verbatim>\<open>my_utilities/wrappers/_rspace.py\<close> are embedded as HOL functions. An exception
  raised by the Python code is a value \<open>Inl e\<close> of the result type \<open>error + 'a\<close>; a normal
  return is \<open>Inr v\<close>.
\<close>

datatype error =
    ValueError string
  | AssertionError string
  | KeyError string
  | TypeError string
  | SyntaxError string



section \<open>interval2str\<close>

text \<open>
  \<^verbatim>\<open>interval\<close> is any object with the attributes \<^verbatim>\<open>left\<close>, \<^verbatim>\<open>right\<close> and
  \<^verbatim>\<open>closed\<close>. The call \<^verbatim>\<open>fmt.format(interval.left, interval.right)\<close> belongs to
  Python's string library: it is the parameter \<open>format\<close>, which may raise (a format
  specification that does not fit the end points).
\<close>

record 'a interval =
  left :: 'a
  right :: 'a
  closed :: string

definition default_fmt :: string where
  "default_fmt = ''{:0.1f}, {:0.1f}''"

definition interval2str ::
  "(string \<Rightarrow> 'a \<Rightarrow> 'a \<Rightarrow> error + string) \<Rightarrow> 'a interval \<Rightarrow> string \<Rightarrow> error + string" where
  "interval2str format interval fmt =
     (case format fmt (left interval) (right interval) of
        Inl e \<Rightarrow> Inl e
      | Inr range_str \<Rightarrow>
          if closed interval = ''both'' then Inr (''['' @ range_str @ '']'')
          else if closed interval = ''left'' then Inr (''['' @ range_str @ '')'')
          else if closed interval = ''right'' then Inr (''('' @ range_str @ '']'')
          else if closed interval = ''neither'' then Inr (''('' @ range_str @ '')'')
          else Inl (ValueError ''Unknown bound''))"

section \<open>pvalue_to_asterisks\<close>

text \<open>
  A Python number compared with a float literal: a finite number is the rational it
  denotes (every finite double is a dyadic rational, and Python compares \<^verbatim>\<open>int\<close>,
  \<^verbatim>\<open>float\<close> and \<^verbatim>\<open>Fraction\<close> values exactly), and the three special floats are kept
  apart. A comparison with NaN is false.
\<close>

datatype pynum = Fin rat | PosInf | NegInf | NaN

fun py_le :: "pynum \<Rightarrow> rat \<Rightarrow> bool" where
  "py_le (Fin x) t = (x \<le> t)"
| "py_le PosInf t = False"
| "py_le NegInf t = True"
| "py_le NaN t = False"

text \<open>
  The literals of the source are doubles: \<^verbatim>\<open>0.0001\<close> is \<^verbatim>\<open>0x1.a36e2eb1c432dp-14\<close>,
  \<^verbatim>\<open>0.001\<close> is \<^verbatim>\<open>0x1.0624dd2f1a9fcp-10\<close>, \<^verbatim>\<open>0.01\<close> is \<^verbatim>\<open>0x1.47ae147ae147bp-7\<close>
  and \<^verbatim>\<open>0.05\<close> is \<^verbatim>\<open>0x1.999999999999ap-5\<close>.
\<close>

definition double_0_0001 :: rat where
  "double_0_0001 = 7378697629483821 / 2 ^ 66"

definition double_0_001 :: rat where
  "double_0_001 = 1152921504606847 / 2 ^ 60"

definition double_0_01 :: rat where
  "double_0_01 = 5764607523034235 / 2 ^ 59"

definition double_0_05 :: rat where
  "double_0_05 = 3602879701896397 / 2 ^ 56"

definition pvalue_to_asterisks :: "pynum \<Rightarrow> string" where
  "pvalue_to_asterisks p_value =
     (if py_le p_value double_0_0001 then ''****''
      else if py_le p_value double_0_001 then ''***''
      else if py_le p_value double_0_01 then ''**''
      else if py_le p_value double_0_05 then ''*''
      else ''ns'')"

text \<open>The doubles that the literals of the six sample inputs denote.\<close>

definition double_0_00005 :: rat where
  "double_0_00005 = 7378697629483821 / 2 ^ 67"

definition double_0_0009 :: rat where
  "double_0_0009 = 4150517416584649 / 2 ^ 62"

definition double_0_005 :: rat where
  "double_0_005 = 5764607523034235 / 2 ^ 60"

definition double_0_03 :: rat where
  "double_0_03 = 1080863910568919 / 2 ^ 55"

section \<open>is_true\<close>




section \<open>select\<close>

subsection \<open>Data frames\<close>

text \<open>
  A pandas \<^verbatim>\<open>DataFrame\<close> is its column labels and its rows; a row is its index label
  and its cells, one for each column in order. Cells hold integers, strings, floats (the
  rational a finite double denotes), dates and the missing value.
\<close>

datatype cell = VInt int | VStr string | VFloat rat | VDate nat nat nat | VNaN

type_synonym row = "cell \<times> cell list"

record frame =
  columns :: "string list"
  rows :: "row list"

text \<open>
  \<^verbatim>\<open>DataFrame.query(expr)\<close> hands the expression to pandas' expression evaluator,
  which is not part of this repository: it is the parameter \<open>ev\<close>, which either raises
  or yields one boolean for each row. \<open>query\<close> then keeps the rows whose boolean is
  true, as \<^verbatim>\<open>self.loc[mask]\<close> does, and returns them as a new frame.
\<close>

type_synonym evaluator = "string \<Rightarrow> frame \<Rightarrow> error + bool list"

definition query :: "evaluator \<Rightarrow> frame \<Rightarrow> string \<Rightarrow> error + frame" where
  "query ev df expr =
     (case ev expr df of
        Inl e \<Rightarrow> Inl e
      | Inr keep \<Rightarrow>
          if length keep \<noteq> length (rows df) then Inl (ValueError ''Item wrong length'')
          else Inr (df\<lparr>rows := map fst (filter snd (zip (rows df) keep))\<rparr>))"

text \<open>
  \<^verbatim>\<open>DataFrame.assign(**{c: v})\<close> with a scalar \<open>v\<close>: every column labelled \<open>c\<close> is
  overwritten with \<open>v\<close>; when there is none, a column \<open>c\<close> is added on the right.
\<close>

definition set_cells :: "string list \<Rightarrow> string \<Rightarrow> cell \<Rightarrow> cell list \<Rightarrow> cell list" where
  "set_cells cols c v cs =
     map (\<lambda>(k, x). if k < length cols \<and> cols ! k = c then v else x) (zip [0..<length cs] cs)"

definition assign_columns :: "string list \<Rightarrow> string \<Rightarrow> string list" where
  "assign_columns cols c = (if c \<in> set cols then cols else cols @ [c])"

definition assign_row :: "string list \<Rightarrow> string \<Rightarrow> cell \<Rightarrow> row \<Rightarrow> row" where
  "assign_row cols c v r =
     (fst r, if c \<in> set cols then set_cells cols c v (snd r) else snd r @ [v])"

definition assign :: "frame \<Rightarrow> string \<Rightarrow> cell \<Rightarrow> frame" where
  "assign df c v =
     \<lparr>columns = assign_columns (columns df) c,
      rows = map (assign_row (columns df) c v) (rows df)\<rparr>"

text \<open>
  \<^verbatim>\<open>pd.concat(objs, axis=0, ignore_index=False, sort=False)\<close>: no object raises
  \<^verbatim>\<open>ValueError\<close>; frames with the same column labels are stacked, index labels kept;
  otherwise the rows are aligned on the union of the labels in order of appearance, a
  missing cell filled with NaN, which pandas refuses for duplicated labels.
\<close>

definition reindex_row :: "string list \<Rightarrow> string list \<Rightarrow> row \<Rightarrow> row" where
  "reindex_row labels cols r =
     (fst r, map (\<lambda>c. case map_of (zip cols (snd r)) c of Some x \<Rightarrow> x | None \<Rightarrow> VNaN) labels)"

definition concat_frames :: "frame list \<Rightarrow> error + frame" where
  "concat_frames objs =
     (if objs = [] then Inl (ValueError ''No objects to concatenate'')
      else if \<forall>f \<in> set objs. columns f = columns (hd objs)
        then Inr \<lparr>columns = columns (hd objs), rows = concat (map rows objs)\<rparr>
      else if \<exists>f \<in> set objs. \<not> distinct (columns f)
        then Inl (ValueError ''Reindexing only valid with uniquely valued Index objects'')
      else
        let labels = rev (remdups (rev (concat (map columns objs))))
        in Inr \<lparr>columns = labels,
                rows = concat (map (\<lambda>f. map (reindex_row labels (columns f)) (rows f)) objs)\<rparr>)"

subsection \<open>Frames as objects\<close>

text \<open>
  Python passes frames by reference, so the frames live in a store and a frame variable
  is an address (a position of the store). \<^verbatim>\<open>query\<close>, \<^verbatim>\<open>copy(deep=True)\<close>,
  \<^verbatim>\<open>assign\<close> and \<^verbatim>\<open>pd.concat\<close> each build a new object and write to no existing
  one. An address held by the program is always one of an existing object.
\<close>

type_synonym store = "frame list"

definition new_object :: "store \<Rightarrow> frame \<Rightarrow> nat \<times> store" where
  "new_object s f = (length s, s @ [f])"

definition df_query :: "evaluator \<Rightarrow> store \<Rightarrow> nat \<Rightarrow> string \<Rightarrow> error + nat \<times> store" where
  "df_query ev s a expr =
     (case query ev (s ! a) expr of Inl e \<Rightarrow> Inl e | Inr f \<Rightarrow> Inr (new_object s f))"

definition df_copy :: "store \<Rightarrow> nat \<Rightarrow> nat \<times> store" where
  "df_copy s a = new_object s (s ! a)"

definition df_assign :: "store \<Rightarrow> nat \<Rightarrow> string \<Rightarrow> cell \<Rightarrow> nat \<times> store" where
  "df_assign s a c v = new_object s (assign (s ! a) c v)"

definition pd_concat :: "store \<Rightarrow> nat list \<Rightarrow> error + nat \<times> store" where
  "pd_concat s objs =
     (case concat_frames (map (\<lambda>a. s ! a) objs) of
        Inl e \<Rightarrow> Inl e
      | Inr f \<Rightarrow> Inr (new_object s f))"

subsection \<open>The function\<close>

text \<open>
  \<^verbatim>\<open>queries\<close> is a string, a list of strings or a dict from labels to strings. The
  dict is the list of its items in insertion order (its keys are distinct);
  \<open>queries_items\<close> is the \<^verbatim>\<open>queries.items()\<close> that the loop runs over, after the two
  \<^verbatim>\<open>isinstance\<close> rewrites. The loop appends the address of each tagged subset to
  \<^verbatim>\<open>subsets\<close>.
\<close>

datatype queries = QStr string | QList "string list" | QDict "(cell \<times> string) list"

fun queries_items :: "queries \<Rightarrow> (cell \<times> string) list" where
  "queries_items (QStr que) = [(VStr '''', que)]"
| "queries_items (QList ques) = zip (map (\<lambda>idx. VInt (int idx)) [0..<length ques]) ques"
| "queries_items (QDict d) = d"

fun subsets_loop ::
  "evaluator \<Rightarrow> store \<Rightarrow> nat \<Rightarrow> string \<Rightarrow> (cell \<times> string) list \<Rightarrow> nat list
     \<Rightarrow> error + nat list \<times> store" where
  "subsets_loop ev s dataframe indicator [] subsets = Inr (subsets, s)"
| "subsets_loop ev s dataframe indicator ((que_id, que_str) # items) subsets =
     (case df_query ev s dataframe que_str of
        Inl e \<Rightarrow> Inl e
      | Inr (a1, s1) \<Rightarrow>
          (case df_copy s1 a1 of
             (a2, s2) \<Rightarrow>
               (case df_assign s2 a2 indicator que_id of
                  (a3, s3) \<Rightarrow> subsets_loop ev s3 dataframe indicator items (subsets @ [a3]))))"

definition select ::
  "evaluator \<Rightarrow> store \<Rightarrow> nat \<Rightarrow> queries \<Rightarrow> string \<Rightarrow> error + nat \<times> store" where
  "select ev s dataframe queries indicator =
     (case subsets_loop ev s dataframe indicator (queries_items queries) [] of
        Inl e \<Rightarrow> Inl e
      | Inr (subsets, s') \<Rightarrow> pd_concat s' subsets)"

definition default_indicator :: string where
  "default_indicator = ''query''"



text \<open>
  The example of the specification: a table with the column \<^verbatim>\<open>col\<close> and the rows
  0, 1, 2, 3, the queries \<^verbatim>\<open>{"a": "col > 1", "b": "col <= 1"}\<close>, and an evaluator
  that knows these two expressions and raises on any other.
\<close>

definition example_frame :: frame where
  "example_frame =
     \<lparr>columns = [''col''],
      rows = [(VInt 0, [VInt 0]), (VInt 1, [VInt 1]), (VInt 2, [VInt 2]), (VInt 3, [VInt 3])]\<rparr>"

definition example_eval :: evaluator where
  "example_eval expr df =
     (if expr = ''col > 1''
        then Inr (map (\<lambda>r. case snd r of [VInt x] \<Rightarrow> 1 < x | _ \<Rightarrow> False) (rows df))
      else if expr = ''col <= 1''
        then Inr (map (\<lambda>r. case snd r of [VInt x] \<Rightarrow> x \<le> 1 | _ \<Rightarrow> False) (rows df))
      else Inl (SyntaxError expr))"


section \<open>get_logger\<close>

text \<open>
  The state of Python's \<^verbatim>\<open>logging\<close> module that \<open>get_logger\<close> reads and writes: the
  loggers by name, each with its handlers, its level and the attribute
  \<^verbatim>\<open>last_print\<close> (absent until it is assigned). A handler is a stream handler with
  the format and date format of its formatter, if it has one.
\<close>

datatype handler = StreamHandler "(string \<times> string) option"

record logger =
  handlers :: "handler list"
  level :: int
  last_print :: "int option"

type_synonym registry = "string \<Rightarrow> logger option"

definition NOTSET :: int where "NOTSET = 0"
definition INFO :: int where "INFO = 20"
definition WARNING :: int where "WARNING = 30"

text \<open>
  \<^verbatim>\<open>logging.getLogger(name)\<close> returns the root logger for \<^verbatim>\<open>None\<close> and for the empty
  string, and otherwise the logger of that name, created on first use with no handler
  and level \<^verbatim>\<open>NOTSET\<close>; the root logger starts at \<^verbatim>\<open>WARNING\<close>. A name that the
  registry does not hold yet is a logger that was never asked for.
\<close>

definition logger_key :: "string option \<Rightarrow> string" where
  "logger_key name = (case name of None \<Rightarrow> ''root'' | Some n \<Rightarrow> if n = [] then ''root'' else n)"

definition new_logger :: "string \<Rightarrow> logger" where
  "new_logger key =
     \<lparr>handlers = [], level = (if key = ''root'' then WARNING else NOTSET), last_print = None\<rparr>"

definition logger_of :: "registry \<Rightarrow> string \<Rightarrow> logger" where
  "logger_of reg key = (case reg key of Some l \<Rightarrow> l | None \<Rightarrow> new_logger key)"

definition getLogger :: "string option \<Rightarrow> registry \<Rightarrow> string \<times> logger \<times> registry" where
  "getLogger name reg =
     (let key = logger_key name; l = logger_of reg key in (key, l, reg(key \<mapsto> l)))"

text \<open>
  \<open>get_logger\<close> returns the logger, here its key in the registry, and the registry
  after the call.
\<close>

definition log_fmt :: string where
  "log_fmt = ''%(asctime)s %(name)s [%(levelname)-s]: %(message)s''"

definition log_datefmt :: string where
  "log_datefmt = ''%Y-%m-%d %H:%M:%S''"

definition stream_handler :: handler where
  "stream_handler = StreamHandler (Some (log_fmt, log_datefmt))"

definition get_logger :: "string option \<Rightarrow> int option \<Rightarrow> registry \<Rightarrow> string \<times> registry" where
  "get_logger name lvl reg =
     (let lvl = (case lvl of None \<Rightarrow> INFO | Some l \<Rightarrow> l) in
      case getLogger name reg of
        (key, logger, reg1) \<Rightarrow>
          let logger1 = (if length (handlers logger) = 0
                         then logger\<lparr>handlers := handlers logger @ [stream_handler]\<rparr>
                         else logger);
              logger2 = logger1\<lparr>level := lvl\<rparr>;
              logger3 = logger2\<lparr>last_print := Some 0\<rparr>
          in (key, reg1(key \<mapsto> logger3)))"



section \<open>RSpace.__getitem__\<close>

text \<open>
  The R session and the converters of \<^verbatim>\<open>rpy2\<close> are not part of this repository.
  \<open>__getitem__\<close> looks at the converted value only through \<^verbatim>\<open>isinstance\<close> and
  \<^verbatim>\<open>ndim\<close>, so a converted value is one of: a pandas data frame, an \<^verbatim>\<open>rpy2\<close> string
  vector, a numpy array with its number of dimensions, or anything else; \<open>'v\<close> is the
  payload, which the method never opens.
\<close>

datatype 'v py_value =
    is_DataFrame: PdDataFrame 'v
  | is_StrVector: StrVector (strings: "string list")
  | is_ndarray: NdArray (ndim: nat) 'v
  | OtherValue 'v










section \<open>generate_dataframe\<close>







section \<open>Properties of interval2str\<close>

text \<open>
  C7. For each of the four closedness tags \<^verbatim>\<open>'both'\<close>, \<^verbatim>\<open>'left'\<close>, \<^verbatim>\<open>'right'\<close>,
  \<^verbatim>\<open>'neither'\<close>, \<open>interval2str\<close> wraps the formatted range in the bracket pair
  \<^verbatim>\<open>[...]\<close>, \<^verbatim>\<open>[...)\<close>, \<^verbatim>\<open>(...]\<close>, \<^verbatim>\<open>(...)\<close> respectively; with any other tag it
  raises, and the error is \<^verbatim>\<open>ValueError('Unknown bound')\<close> when the formatting itself
  went through.
\<close>

theorem interval2str_brackets:
  "(format fmt (left i) (right i) = Inr s \<longrightarrow>
      (closed i = ''both'' \<longrightarrow> interval2str format i fmt = Inr (''['' @ s @ '']'')) \<and>
      (closed i = ''left'' \<longrightarrow> interval2str format i fmt = Inr (''['' @ s @ '')'')) \<and>
      (closed i = ''right'' \<longrightarrow> interval2str format i fmt = Inr (''('' @ s @ '']'')) \<and>
      (closed i = ''neither'' \<longrightarrow> interval2str format i fmt = Inr (''('' @ s @ '')'')) \<and>
      (closed i \<notin> {''both'', ''left'', ''right'', ''neither''} \<longrightarrow>
         interval2str format i fmt = Inl (ValueError ''Unknown bound''))) \<and>
   (closed i \<notin> {''both'', ''left'', ''right'', ''neither''} \<longrightarrow>
      (\<exists>e. interval2str format i fmt = Inl e))"
  by (auto simp: interval2str_def split: sum.splits)

theorem interval2str_brackets_witness:
  "interval2str (\<lambda>f l r. Inr ''0.0, 1.5'') \<lparr>left = (0::int), right = 1, closed = ''left''\<rparr> default_fmt
     = Inr ''[0.0, 1.5)'' \<and>
   interval2str (\<lambda>f l r. Inr ''0.0, 1.5'') \<lparr>left = (0::int), right = 1, closed = ''open''\<rparr> default_fmt
     = Inl (ValueError ''Unknown bound'')"
  using interval2str_brackets [of "\<lambda>f l r. Inr ''0.0, 1.5''" default_fmt
      "\<lparr>left = (0::int), right = 1, closed = ''left''\<rparr>" "''0.0, 1.5''"]
    interval2str_brackets [of "\<lambda>f l r. Inr ''0.0, 1.5''" default_fmt
      "\<lparr>left = (0::int), right = 1, closed = ''open''\<rparr>" "''0.0, 1.5''"]
  by simp

section \<open>Properties of pvalue_to_asterisks\<close>

lemma py_le_mono: "py_le p a \<Longrightarrow> a \<le> b \<Longrightarrow> py_le p b"
  by (cases p) auto

lemma doubles_ascending:
  "double_0_0001 \<le> double_0_001" "double_0_001 \<le> double_0_01" "double_0_01 \<le> double_0_05"
  by (simp_all add: double_0_0001_def double_0_001_def double_0_01_def double_0_05_def)

text \<open>Each constant is the double nearest to the decimal literal (within half an ulp).\<close>

lemma doubles_nearest:
  "\<bar>double_0_0001 - 1 / 10000\<bar> \<le> 1 / 2 ^ 67"
  "\<bar>double_0_001 - 1 / 1000\<bar> \<le> 1 / 2 ^ 63"
  "\<bar>double_0_01 - 1 / 100\<bar> \<le> 1 / 2 ^ 60"
  "\<bar>double_0_05 - 5 / 100\<bar> \<le> 1 / 2 ^ 58"
  by (simp_all add: double_0_0001_def double_0_001_def double_0_01_def double_0_05_def)

text \<open>
  C6. \<open>pvalue_to_asterisks\<close> is a five-way threshold lookup with the thresholds
  \<^verbatim>\<open><= 0.0001\<close>, \<^verbatim>\<open><= 0.001\<close>, \<^verbatim>\<open><= 0.01\<close>, \<^verbatim>\<open><= 0.05\<close>, else; they are tried in this
  order and the first that holds decides, so each output corresponds to one band; the
  inputs 0, 0.00005, 0.0009, 0.005, 0.03 and 0.5 give \<^verbatim>\<open>****\<close>, \<^verbatim>\<open>****\<close>, \<^verbatim>\<open>***\<close>,
  \<^verbatim>\<open>**\<close>, \<^verbatim>\<open>*\<close> and \<^verbatim>\<open>ns\<close>.
\<close>

theorem pvalue_to_asterisks_bands:
  "(pvalue_to_asterisks p = ''****'') = py_le p double_0_0001 \<and>
   (pvalue_to_asterisks p = ''***'') = (\<not> py_le p double_0_0001 \<and> py_le p double_0_001) \<and>
   (pvalue_to_asterisks p = ''**'') = (\<not> py_le p double_0_001 \<and> py_le p double_0_01) \<and>
   (pvalue_to_asterisks p = ''*'') = (\<not> py_le p double_0_01 \<and> py_le p double_0_05) \<and>
   (pvalue_to_asterisks p = ''ns'') = (\<not> py_le p double_0_05) \<and>
   pvalue_to_asterisks (Fin 0) = ''****'' \<and>
   pvalue_to_asterisks (Fin double_0_00005) = ''****'' \<and>
   pvalue_to_asterisks (Fin double_0_0009) = ''***'' \<and>
   pvalue_to_asterisks (Fin double_0_005) = ''**'' \<and>
   pvalue_to_asterisks (Fin double_0_03) = ''*'' \<and>
   pvalue_to_asterisks (Fin (1 / 2)) = ''ns''"
proof -
  have m12: "py_le p double_0_0001 \<Longrightarrow> py_le p double_0_001"
    and m23: "py_le p double_0_001 \<Longrightarrow> py_le p double_0_01"
    and m34: "py_le p double_0_01 \<Longrightarrow> py_le p double_0_05"
    using doubles_ascending by (blast intro: py_le_mono)+
  have bands:
    "(pvalue_to_asterisks p = ''****'') = py_le p double_0_0001"
    "(pvalue_to_asterisks p = ''***'') = (\<not> py_le p double_0_0001 \<and> py_le p double_0_001)"
    "(pvalue_to_asterisks p = ''**'') = (\<not> py_le p double_0_001 \<and> py_le p double_0_01)"
    "(pvalue_to_asterisks p = ''*'') = (\<not> py_le p double_0_01 \<and> py_le p double_0_05)"
    "(pvalue_to_asterisks p = ''ns'') = (\<not> py_le p double_0_05)"
    using m12 m23 m34 by (auto simp: pvalue_to_asterisks_def)
  have samples:
    "pvalue_to_asterisks (Fin 0) = ''****''"
    "pvalue_to_asterisks (Fin double_0_00005) = ''****''"
    "pvalue_to_asterisks (Fin double_0_0009) = ''***''"
    "pvalue_to_asterisks (Fin double_0_005) = ''**''"
    "pvalue_to_asterisks (Fin double_0_03) = ''*''"
    "pvalue_to_asterisks (Fin (1 / 2)) = ''ns''"
    by (simp_all add: pvalue_to_asterisks_def double_0_0001_def double_0_001_def
        double_0_01_def double_0_05_def double_0_00005_def double_0_0009_def
        double_0_005_def double_0_03_def)
  from bands samples show ?thesis by blast
qed

theorem pvalue_to_asterisks_bands_witness:
  "pvalue_to_asterisks NaN = ''ns'' \<and> pvalue_to_asterisks NegInf = ''****'' \<and>
   pvalue_to_asterisks (Fin double_0_05) = ''*''"
  using pvalue_to_asterisks_bands [of NaN] pvalue_to_asterisks_bands [of NegInf]
    pvalue_to_asterisks_bands [of "Fin double_0_05"]
  by (simp add: double_0_01_def double_0_05_def)

section \<open>Properties of is_true\<close>



section \<open>Properties of select\<close>





















text \<open>
  C10. For every data frame, \<open>select\<close> with an empty list or an empty mapping of queries
  raises (\<^verbatim>\<open>pd.concat\<close> is given no subset: \<^verbatim>\<open>ValueError\<close>) instead of
  returning an empty table.
\<close>

theorem select_no_queries_raises:
  "select ev s dataframe (QList []) indicator = Inl (ValueError ''No objects to concatenate'') \<and>
   select ev s dataframe (QDict []) indicator = Inl (ValueError ''No objects to concatenate'')"
  by (simp add: select_def pd_concat_def concat_frames_def)

theorem select_no_queries_raises_witness:
  "select example_eval [example_frame] 0 (QList []) default_indicator
     = Inl (ValueError ''No objects to concatenate'') \<and>
   select example_eval [example_frame] 0 (QDict []) default_indicator
     = Inl (ValueError ''No objects to concatenate'')"
  using select_no_queries_raises [of example_eval "[example_frame]" 0 default_indicator]
  by simp







section \<open>Properties of get_logger\<close>




lemma get_logger_bound: "snd (get_logger name lvl reg) (logger_key name) \<noteq> None"
  by (simp add: get_logger_def getLogger_def Let_def)






section \<open>Properties of RSpace.__getitem__\<close>



section \<open>Properties of generate_dataframe\<close>









end
